theory Spec2Isabelle
  imports Main
begin

section \<open>JavaScript values\<close>

text \<open>
  The routes read their inputs as untyped values (\<^verbatim>\<open>any\<close>): property reads, truthiness
  tests, \<^verbatim>\<open>||\<close> defaults and strict equality on whatever the SDK or the request delivers.
  The values are modelled as a JSON-like datatype. Numbers are restricted to the safe
  integers (below \<open>2\<^sup>5\<^sup>3\<close> in absolute value): each of them is a JavaScript number, and
  each prints as its decimal form.
  An object is an association list of its own properties, each key once; properties
  inherited from a prototype are not modelled (none of the property names read by the
  code is one).
\<close>

typedef safe_int = "{i :: int. - 9007199254740992 < i \<and> i < 9007199254740992}"
  by (rule exI[of _ 0]) simp

datatype jsval =
    JUndefined
  | JNull
  | JBool bool
  | JNum safe_int
  | JStr string
  | JArr "jsval list"
  | JObj "(string \<times> jsval) list"

text \<open>A thrown value: an \<^verbatim>\<open>Error\<close> instance with its message, or any other value.\<close>

datatype exn = ErrorObj string | ThrownVal jsval

fun truthy :: "jsval \<Rightarrow> bool" where
  "truthy JUndefined = False"
| "truthy JNull = False"
| "truthy (JBool b) = b"
| "truthy (JNum n) = (Rep_safe_int n \<noteq> 0)"
| "truthy (JStr s) = (s \<noteq> [])"
| "truthy (JArr xs) = True"
| "truthy (JObj kvs) = True"

fun nullish :: "jsval \<Rightarrow> bool" where
  "nullish JUndefined = True"
| "nullish JNull = True"
| "nullish v = False"

text \<open>\<^verbatim>\<open>a || b\<close>\<close>

definition js_or :: "jsval \<Rightarrow> jsval \<Rightarrow> jsval" where
  "js_or a b = (if truthy a then a else b)"

text \<open>
  \<^verbatim>\<open>v?.k\<close>: the property \<open>k\<close> of \<open>v\<close>, \<^verbatim>\<open>undefined\<close> when \<open>v\<close> is nullish, is not an
  object or has no such property. The plain read \<^verbatim>\<open>v.k\<close> agrees with it on every value
  that is not nullish and throws a \<^verbatim>\<open>TypeError\<close> on a nullish one (\<open>type_error\<close>, with the
  message text of V8).
\<close>

fun get :: "jsval \<Rightarrow> string \<Rightarrow> jsval" where
  "get (JObj kvs) k = (case map_of kvs k of Some v \<Rightarrow> v | None \<Rightarrow> JUndefined)"
| "get v k = JUndefined"

definition type_error :: "jsval \<Rightarrow> string \<Rightarrow> exn" where
  "type_error v k =
     ErrorObj (''Cannot read properties of ''
       @ (if v = JNull then ''null'' else ''undefined'')
       @ '' (reading '' @ [CHR 0x27] @ k @ [CHR 0x27] @ '')'')"



section \<open>MCP server configurations, handles and the SDK\<close>

text \<open>
  \<^verbatim>\<open>interface MCPServerConfig\<close>. The type tag arrives from a request body, so it is any string;
  an optional field is \<open>None\<close> when absent.
\<close>

record MCPServerConfig =
  cfg_id :: string
  cfg_name :: string
  cfg_type :: string
  cfg_command :: "string option"
  cfg_args :: "string list option"
  cfg_env :: "(string \<times> string) list option"
  cfg_url :: "string option"

text \<open>
  The two SDK classes, each with the options its constructor is given. The constructors
  only store their options and do not throw.
\<close>

datatype mcp_server =
    MCPServerStdio string string "string list" "(string \<times> string) list option"
  | MCPServerStreamableHttp string string

text \<open>\<^verbatim>\<open>s || d\<close> on an optional string: absent and empty are both falsy.\<close>

fun str_or :: "string option \<Rightarrow> string \<Rightarrow> string" where
  "str_or None d = d"
| "str_or (Some s) d = (if s = [] then d else s)"

text \<open>\<^verbatim>\<open>xs || []\<close> on an optional array: every array is truthy.\<close>

fun args_or :: "string list option \<Rightarrow> string list \<Rightarrow> string list" where
  "args_or None d = d"
| "args_or (Some xs) d = xs"

text \<open>
  What the SDK and the runtime do is not code of this repository: it is given by an
  environment. \<open>connect_outcome\<close>, \<open>listTools_outcome\<close> and \<open>close_outcome\<close> say, for each
  server object, whether the call resolves or what it throws; \<open>stringify_configs\<close> is
  \<^verbatim>\<open>JSON.stringify\<close> on a configuration list.
\<close>

record sdk_env =
  stringify_configs :: "MCPServerConfig list \<Rightarrow> string"
  connect_outcome :: "mcp_server \<Rightarrow> exn option"
  listTools_outcome :: "mcp_server \<Rightarrow> exn + jsval list"
  close_outcome :: "mcp_server \<Rightarrow> exn option"

datatype sdk_call = Connect mcp_server | ListTools mcp_server | Close mcp_server

datatype log_entry =
    LogAlreadyInitialized
  | LogConnected string
  | LogConnectFailed string exn
  | LogClosingAll
  | LogClosed string
  | LogCloseError string exn
  | LogDiscoveryError exn
  | LogDiscoveryCloseError exn

fun is_close :: "sdk_call \<Rightarrow> bool" where
  "is_close (Close server) = True"
| "is_close c = False"

text \<open>
  The process state: the fields of the singleton \<^verbatim>\<open>MCPServerManager\<close> (\<open>servers\<close> is a
  JavaScript \<^verbatim>\<open>Map\<close>, kept in insertion order), the global \<^verbatim>\<open>__mcpConfigKey\<close> (\<open>None\<close> while
  it is undefined), and what the process has done so far: the SDK calls it made, oldest
  first, and its console output.
\<close>

record world =
  servers :: "(string \<times> mcp_server) list"
  isInitialized :: bool
  mcpConfigKey :: "string option"
  calls :: "sdk_call list"
  console :: "log_entry list"

definition initial_world :: world where
  "initial_world =
     \<lparr>servers = [], isInitialized = False, mcpConfigKey = None, calls = [], console = []\<rparr>"

section \<open>The connection registry (MCPServerManager)\<close>

text \<open>\<^verbatim>\<open>Map.prototype.set\<close>: an existing key keeps its position and gets the new value.\<close>

fun map_set :: "string \<Rightarrow> mcp_server \<Rightarrow> (string \<times> mcp_server) list \<Rightarrow> (string \<times> mcp_server) list" where
  "map_set k v [] = [(k, v)]"
| "map_set k v ((k', v') # rest) =
     (if k' = k then (k, v) # rest else (k', v') # map_set k v rest)"

text \<open>\<^verbatim>\<open>Array.from(this.servers.values())\<close>\<close>

definition getServers :: "world \<Rightarrow> mcp_server list" where
  "getServers w = map snd (servers w)"

definition getCurrentConfigKey :: "world \<Rightarrow> string" where
  "getCurrentConfigKey w =
     (case mcpConfigKey w of None \<Rightarrow> [] | Some k \<Rightarrow> (if k = [] then [] else k))"

definition saveCurrentConfigKey :: "string \<Rightarrow> world \<Rightarrow> world" where
  "saveCurrentConfigKey key w = w\<lparr>mcpConfigKey := Some key\<rparr>"

text \<open>The loop of \<^verbatim>\<open>closeAllServers\<close>: a failing close is caught and logged.\<close>

fun close_loop :: "sdk_env \<Rightarrow> (string \<times> mcp_server) list \<Rightarrow> world \<Rightarrow> world" where
  "close_loop env [] w = w"
| "close_loop env ((i, server) # rest) w =
     (let w1 = w\<lparr>calls := calls w @ [Close server]\<rparr>;
          w2 = (case close_outcome env server of
                  None \<Rightarrow> w1\<lparr>console := console w1 @ [LogClosed i]\<rparr>
                | Some e \<Rightarrow> w1\<lparr>console := console w1 @ [LogCloseError i e]\<rparr>)
      in close_loop env rest w2)"

definition closeAllServers :: "sdk_env \<Rightarrow> world \<Rightarrow> world" where
  "closeAllServers env w =
     (let w1 = w\<lparr>console := console w @ [LogClosingAll]\<rparr>;
          w2 = close_loop env (servers w1) w1
      in w2\<lparr>servers := [], isInitialized := False\<rparr>)"

text \<open>The server object \<^verbatim>\<open>initializeServers\<close> builds: every type but \<^verbatim>\<open>'stdio'\<close> is HTTP.\<close>

definition registry_server :: "MCPServerConfig \<Rightarrow> mcp_server" where
  "registry_server config =
     (if cfg_type config = ''stdio''
      then MCPServerStdio (cfg_name config) (str_or (cfg_command config) ''npx'')
             (args_or (cfg_args config) []) (cfg_env config)
      else MCPServerStreamableHttp (cfg_name config) (str_or (cfg_url config) []))"

text \<open>The loop of \<^verbatim>\<open>initializeServers\<close>: a failing connect is caught and logged.\<close>

fun init_loop :: "sdk_env \<Rightarrow> MCPServerConfig list \<Rightarrow> world \<Rightarrow> world" where
  "init_loop env [] w = w"
| "init_loop env (config # rest) w =
     (let server = registry_server config;
          w1 = w\<lparr>calls := calls w @ [Connect server]\<rparr>;
          w2 = (case connect_outcome env server of
                  None \<Rightarrow> w1\<lparr>servers := map_set (cfg_id config) server (servers w1),
                              console := console w1 @ [LogConnected (cfg_name config)]\<rparr>
                | Some e \<Rightarrow> w1\<lparr>console := console w1 @ [LogConnectFailed (cfg_name config) e]\<rparr>)
      in init_loop env rest w2)"

definition initializeServers :: "sdk_env \<Rightarrow> MCPServerConfig list \<Rightarrow> world \<Rightarrow> mcp_server list \<times> world" where
  "initializeServers env configs w =
     (let configKey = stringify_configs env configs;
          currentConfigKey = getCurrentConfigKey w
      in if isInitialized w \<and> configKey = currentConfigKey
         then (map snd (servers w), w\<lparr>console := console w @ [LogAlreadyInitialized]\<rparr>)
         else
           (let w1 = (if isInitialized w then closeAllServers env w else w);
                w2 = init_loop env configs w1;
                w3 = saveCurrentConfigKey configKey (w2\<lparr>isInitialized := True\<rparr>)
            in (map snd (servers w3), w3)))"

definition updateServers :: "sdk_env \<Rightarrow> MCPServerConfig list \<Rightarrow> world \<Rightarrow> world" where
  "updateServers env configs w = snd (initializeServers env configs w)"

text \<open>
  The states of the process reached from the initial one by calls of the manager's two
  operations, in an environment \<open>env\<close>.
\<close>

inductive reachable :: "sdk_env \<Rightarrow> world \<Rightarrow> bool" for env :: sdk_env where
  reachable_initial: "reachable env initial_world"
| reachable_initializeServers:
    "reachable env w \<Longrightarrow> reachable env (snd (initializeServers env configs w))"
| reachable_closeAllServers:
    "reachable env w \<Longrightarrow> reachable env (closeAllServers env w)"

section \<open>String conversion\<close>

text \<open>
  \<^verbatim>\<open>ToString\<close>, as applied by string concatenation and by template literals. A number of
  the model is a safe integer, which JavaScript prints in decimal (exponent notation
  starts at \<open>10\<^sup>2\<^sup>1\<close>). \<open>decimal\<close> gives the decimal digits of a natural number.
\<close>

definition digit_char :: "nat \<Rightarrow> char" where
  "digit_char d = ''0123456789'' ! d"

function decimal :: "nat \<Rightarrow> string" where
  "decimal n = (if n div 10 = 0 then [] else decimal (n div 10)) @ [digit_char (n mod 10)]"
  by pat_completeness auto
termination
  by (relation "measure (\<lambda>n. n)") auto

text \<open>\<^verbatim>\<open>Number.prototype.toString\<close> on a safe integer.\<close>

definition number_toString :: "safe_int \<Rightarrow> string" where
  "number_toString n =
     (if 0 \<le> Rep_safe_int n then decimal (nat (Rep_safe_int n))
      else CHR ''-'' # decimal (nat (- Rep_safe_int n)))"

fun join_comma :: "string list \<Rightarrow> string" where
  "join_comma [] = []"
| "join_comma [s] = s"
| "join_comma (s # t # rest) = s @ '','' @ join_comma (t # rest)"

fun to_string :: "jsval \<Rightarrow> string" where
  "to_string JUndefined = ''undefined''"
| "to_string JNull = ''null''"
| "to_string (JBool b) = (if b then ''true'' else ''false'')"
| "to_string (JNum n) = number_toString n"
| "to_string (JStr s) = s"
| "to_string (JArr xs) = join_comma (map (\<lambda>v. if nullish v then [] else to_string v) xs)"
| "to_string (JObj kvs) = ''[object Object]''"

section \<open>The discovery route\<close>

text \<open>An entry \<^verbatim>\<open>{name, description}\<close> of the returned tool list.\<close>

datatype tool_info = ToolInfo (info_name: jsval) (info_description: jsval)

text \<open>
  The three shapes of response body: \<^verbatim>\<open>{error}\<close>, \<^verbatim>\<open>{success: true, tools}\<close> and
  \<^verbatim>\<open>{error, tools: []}\<close>; a response is a body with its HTTP status.
\<close>

datatype response_body =
    ErrorBody string
  | ToolsBody "tool_info list"
  | FailedBody string "tool_info list"

datatype http_response = HttpResponse nat response_body

text \<open>
  The server object the route builds (lines 28 to 45): \<open>None\<close> is the branch that answers
  \<^verbatim>\<open>Invalid server type\<close> and builds nothing.
\<close>

definition discover_server :: "MCPServerConfig \<Rightarrow> mcp_server option" where
  "discover_server server =
     (if cfg_type server = ''stdio''
      then Some (MCPServerStdio (cfg_name server) (str_or (cfg_command server) ''npx'')
                   (args_or (cfg_args server) []) (cfg_env server))
      else if cfg_type server = ''http''
      then Some (MCPServerStreamableHttp (cfg_name server) (str_or (cfg_url server) []))
      else None)"

text \<open>\<^verbatim>\<open>toolsList.map(...)\<close>: reading \<^verbatim>\<open>tool.name\<close> throws on a nullish entry.\<close>

fun map_tools :: "jsval list \<Rightarrow> exn + tool_info list" where
  "map_tools [] = Inr []"
| "map_tools (tool # rest) =
     (if nullish tool then Inl (type_error tool ''name'')
      else case map_tools rest of
             Inl e \<Rightarrow> Inl e
           | Inr tools \<Rightarrow>
               Inr (ToolInfo (js_or (get tool ''name'') (JStr ''Unknown Tool''))
                             (js_or (get tool ''description'') (JStr ''No description available''))
                    # tools))"

text \<open>
  The \<^verbatim>\<open>try\<close> block. The request is \<open>Inl e\<close> when \<^verbatim>\<open>request.json()\<close> throws \<open>e\<close>, \<open>Inr None\<close>
  when the body has no \<^verbatim>\<open>server\<close>, \<open>Inr (Some server)\<close> otherwise. The block returns a
  response (\<open>Inr\<close>) or throws (\<open>Inl\<close>); the second component is the variable \<^verbatim>\<open>mcpServer\<close>
  at the end of the block.
\<close>

definition discover_try ::
  "sdk_env \<Rightarrow> exn + MCPServerConfig option \<Rightarrow> world \<Rightarrow> (exn + http_response) \<times> mcp_server option \<times> world" where
  "discover_try env request w =
     (case request of
        Inl e \<Rightarrow> (Inl e, None, w)
      | Inr None \<Rightarrow>
          (Inr (HttpResponse 400 (ErrorBody ''Server configuration is required'')), None, w)
      | Inr (Some server) \<Rightarrow>
          (case discover_server server of
             None \<Rightarrow> (Inr (HttpResponse 400 (ErrorBody ''Invalid server type'')), None, w)
           | Some mcpServer \<Rightarrow>
               (let w1 = w\<lparr>calls := calls w @ [Connect mcpServer]\<rparr>
                in case connect_outcome env mcpServer of
                     Some e \<Rightarrow> (Inl e, Some mcpServer, w1)
                   | None \<Rightarrow>
                       (let w2 = w1\<lparr>calls := calls w1 @ [ListTools mcpServer]\<rparr>
                        in case listTools_outcome env mcpServer of
                             Inl e \<Rightarrow> (Inl e, Some mcpServer, w2)
                           | Inr toolsList \<Rightarrow>
                               (case map_tools toolsList of
                                  Inl e \<Rightarrow> (Inl e, Some mcpServer, w2)
                                | Inr tools \<Rightarrow>
                                    (Inr (HttpResponse 200 (ToolsBody tools)), Some mcpServer, w2))))))"

text \<open>\<^verbatim>\<open>error.message\<close> on a caught value of type \<^verbatim>\<open>any\<close>.\<close>

fun error_message :: "exn \<Rightarrow> exn + jsval" where
  "error_message (ErrorObj m) = Inr (JStr m)"
| "error_message (ThrownVal v) =
     (if nullish v then Inl (type_error v ''message'') else Inr (get v ''message''))"

definition discover_catch :: "exn \<Rightarrow> world \<Rightarrow> (exn + http_response) \<times> world" where
  "discover_catch error w =
     (let w1 = w\<lparr>console := console w @ [LogDiscoveryError error]\<rparr>
      in case error_message error of
           Inl e \<Rightarrow> (Inl e, w1)
         | Inr m \<Rightarrow>
             (Inr (HttpResponse 500
                (FailedBody (''Failed to discover tools: '' @ to_string (js_or m (JStr ''Unknown error''))) [])),
              w1))"

definition discover_finally :: "sdk_env \<Rightarrow> mcp_server option \<Rightarrow> world \<Rightarrow> world" where
  "discover_finally env mcpServer w =
     (case mcpServer of
        None \<Rightarrow> w
      | Some server \<Rightarrow>
          (let w1 = w\<lparr>calls := calls w @ [Close server]\<rparr>
           in case close_outcome env server of
                None \<Rightarrow> w1
              | Some e \<Rightarrow> w1\<lparr>console := console w1 @ [LogDiscoveryCloseError e]\<rparr>))"

text \<open>The handler: what it returns (\<open>Inr\<close>) or throws (\<open>Inl\<close>), and the world it leaves.\<close>

definition discover_POST ::
  "sdk_env \<Rightarrow> exn + MCPServerConfig option \<Rightarrow> world \<Rightarrow> (exn + http_response) \<times> world" where
  "discover_POST env request w =
     (case discover_try env request w of
        (outcome, mcpServer, w1) \<Rightarrow>
          (case (case outcome of
                   Inr response \<Rightarrow> (Inr response, w1)
                 | Inl error \<Rightarrow> discover_catch error w1) of
             (res, w2) \<Rightarrow> (res, discover_finally env mcpServer w2)))"

section \<open>The streaming translator (agents run route)\<close>

















section \<open>Example inputs\<close>

text \<open>
  An environment in which every subprocess server connects, every HTTP server refuses
  the connection, every catalogue has one tool without description and one without name,
  and every close fails. The serializer is a stand-in for \<^verbatim>\<open>JSON.stringify\<close>.
\<close>

definition example_env :: sdk_env where
  "example_env =
     \<lparr>stringify_configs =
        (\<lambda>configs. concat (map (\<lambda>c. cfg_id c @ '':'' @ cfg_name c @ '':'' @ cfg_type c @ '';'') configs)),
      connect_outcome =
        (\<lambda>server. case server of
           MCPServerStdio n c a e \<Rightarrow> None
         | MCPServerStreamableHttp n u \<Rightarrow> Some (ErrorObj ''connection refused'')),
      listTools_outcome =
        (\<lambda>server. Inr [JObj [(''name'', JStr ''read_file'')],
                        JObj [(''description'', JStr ''Lists a directory'')]]),
      close_outcome = (\<lambda>server. Some (ErrorObj ''close failed''))\<rparr>"

definition config_files :: MCPServerConfig where
  "config_files =
     \<lparr>cfg_id = ''1'', cfg_name = ''files'', cfg_type = ''stdio'', cfg_command = None,
      cfg_args = None, cfg_env = None, cfg_url = None\<rparr>"

definition config_remote :: MCPServerConfig where
  "config_remote =
     \<lparr>cfg_id = ''2'', cfg_name = ''remote'', cfg_type = ''http'', cfg_command = None,
      cfg_args = None, cfg_env = None, cfg_url = Some ''http://x''\<rparr>"

definition config_git :: MCPServerConfig where
  "config_git =
     \<lparr>cfg_id = ''1'', cfg_name = ''git'', cfg_type = ''stdio'', cfg_command = Some ''node'',
      cfg_args = Some [''git.js''], cfg_env = None, cfg_url = None\<rparr>"

definition config_socket :: MCPServerConfig where
  "config_socket =
     \<lparr>cfg_id = ''3'', cfg_name = ''socket'', cfg_type = ''websocket'', cfg_command = None,
      cfg_args = None, cfg_env = None, cfg_url = Some ''ws://x''\<rparr>"








section \<open>Properties of the connection registry\<close>

subsection \<open>The two loops\<close>

lemma close_loop_step:
  "close_loop env ((i, s) # rest) w =
     close_loop env rest
       (w\<lparr>calls := calls w @ [Close s],
          console := console w @ [case close_outcome env s of
                                    None \<Rightarrow> LogClosed i | Some e \<Rightarrow> LogCloseError i e]\<rparr>)"
  by (cases "close_outcome env s") (simp_all add: Let_def)

lemma close_loop_servers: "servers (close_loop env xs w) = servers w"
proof (induction xs arbitrary: w)
  case Nil
  show ?case by simp
next
  case (Cons x xs)
  obtain i s where x: "x = (i, s)" by (cases x)
  show ?case unfolding x close_loop_step by (simp add: Cons.IH)
qed

lemma close_loop_isInitialized: "isInitialized (close_loop env xs w) = isInitialized w"
proof (induction xs arbitrary: w)
  case Nil
  show ?case by simp
next
  case (Cons x xs)
  obtain i s where x: "x = (i, s)" by (cases x)
  show ?case unfolding x close_loop_step by (simp add: Cons.IH)
qed

lemma close_loop_mcpConfigKey: "mcpConfigKey (close_loop env xs w) = mcpConfigKey w"
proof (induction xs arbitrary: w)
  case Nil
  show ?case by simp
next
  case (Cons x xs)
  obtain i s where x: "x = (i, s)" by (cases x)
  show ?case unfolding x close_loop_step by (simp add: Cons.IH)
qed

lemma close_loop_calls:
  "calls (close_loop env xs w) = calls w @ map (\<lambda>p. Close (snd p)) xs"
proof (induction xs arbitrary: w)
  case Nil
  show ?case by simp
next
  case (Cons x xs)
  obtain i s where x: "x = (i, s)" by (cases x)
  show ?case unfolding x close_loop_step by (simp add: Cons.IH)
qed

lemma init_loop_step:
  "init_loop env (c # rest) w =
     init_loop env rest
       (case connect_outcome env (registry_server c) of
          None \<Rightarrow> w\<lparr>calls := calls w @ [Connect (registry_server c)],
                      servers := map_set (cfg_id c) (registry_server c) (servers w),
                      console := console w @ [LogConnected (cfg_name c)]\<rparr>
        | Some e \<Rightarrow> w\<lparr>calls := calls w @ [Connect (registry_server c)],
                        console := console w @ [LogConnectFailed (cfg_name c) e]\<rparr>)"
  by (cases "connect_outcome env (registry_server c)") (simp_all add: Let_def)

lemma init_loop_isInitialized: "isInitialized (init_loop env cs w) = isInitialized w"
proof (induction cs arbitrary: w)
  case Nil
  show ?case by simp
next
  case (Cons c cs)
  show ?case unfolding init_loop_step
    by (cases "connect_outcome env (registry_server c)") (simp_all add: Cons.IH)
qed

lemma init_loop_mcpConfigKey: "mcpConfigKey (init_loop env cs w) = mcpConfigKey w"
proof (induction cs arbitrary: w)
  case Nil
  show ?case by simp
next
  case (Cons c cs)
  show ?case unfolding init_loop_step
    by (cases "connect_outcome env (registry_server c)") (simp_all add: Cons.IH)
qed

lemma init_loop_calls:
  "calls (init_loop env cs w) = calls w @ map (\<lambda>c. Connect (registry_server c)) cs"
proof (induction cs arbitrary: w)
  case Nil
  show ?case by simp
next
  case (Cons c cs)
  show ?case unfolding init_loop_step
    by (cases "connect_outcome env (registry_server c)") (simp_all add: Cons.IH)
qed


lemma map_set_fresh:
  "k \<notin> fst ` set xs \<Longrightarrow> map_set k v xs = xs @ [(k, v)]"
  by (induction xs) auto

lemma init_loop_servers:
  "distinct (map cfg_id cs) \<Longrightarrow> fst ` set (servers w) \<inter> cfg_id ` set cs = {} \<Longrightarrow>
   servers (init_loop env cs w) =
     servers w @ map (\<lambda>c. (cfg_id c, registry_server c))
                  (filter (\<lambda>c. connect_outcome env (registry_server c) = None) cs)"
proof (induction cs arbitrary: w)
  case Nil
  then show ?case by simp
next
  case (Cons c cs)
  have d: "distinct (map cfg_id cs)" using Cons.prems(1) by simp
  show ?case
  proof (cases "connect_outcome env (registry_server c)")
    case None
    let ?w2 = "w\<lparr>calls := calls w @ [Connect (registry_server c)],
                  servers := map_set (cfg_id c) (registry_server c) (servers w),
                  console := console w @ [LogConnected (cfg_name c)]\<rparr>"
    have fresh: "cfg_id c \<notin> fst ` set (servers w)"
      using Cons.prems(2) by auto
    have sv: "servers ?w2 = servers w @ [(cfg_id c, registry_server c)]"
      using fresh by (simp add: map_set_fresh)
    have "cfg_id c \<notin> cfg_id ` set cs" using Cons.prems(1) by auto
    then have disj: "fst ` set (servers ?w2) \<inter> cfg_id ` set cs = {}"
      unfolding sv using Cons.prems(2) by auto
    have "init_loop env (c # cs) w = init_loop env cs ?w2"
      unfolding init_loop_step using None by simp
    then show ?thesis
      using Cons.IH[OF d disj] sv None by simp
  next
    case (Some e)
    let ?w2 = "w\<lparr>calls := calls w @ [Connect (registry_server c)],
                  console := console w @ [LogConnectFailed (cfg_name c) e]\<rparr>"
    have disj: "fst ` set (servers ?w2) \<inter> cfg_id ` set cs = {}"
      using Cons.prems(2) by auto
    have "init_loop env (c # cs) w = init_loop env cs ?w2"
      unfolding init_loop_step using Some by simp
    then show ?thesis
      using Cons.IH[OF d disj] Some by simp
  qed
qed

subsection \<open>closeAllServers and the two branches of initializeServers\<close>

lemma closeAllServers_servers: "servers (closeAllServers env w) = []"
  by (simp add: closeAllServers_def Let_def)

lemma closeAllServers_isInitialized: "isInitialized (closeAllServers env w) = False"
  by (simp add: closeAllServers_def Let_def)

lemma closeAllServers_mcpConfigKey: "mcpConfigKey (closeAllServers env w) = mcpConfigKey w"
  by (simp add: closeAllServers_def Let_def close_loop_mcpConfigKey)

lemma closeAllServers_calls:
  "calls (closeAllServers env w) = calls w @ map (\<lambda>p. Close (snd p)) (servers w)"
  by (simp add: closeAllServers_def Let_def close_loop_calls)

lemma initializeServers_reuse:
  "isInitialized w \<Longrightarrow> stringify_configs env cs = getCurrentConfigKey w \<Longrightarrow>
   initializeServers env cs w =
     (map snd (servers w), w\<lparr>console := console w @ [LogAlreadyInitialized]\<rparr>)"
  by (simp add: initializeServers_def Let_def)

lemma initializeServers_fresh:
  assumes "\<not> (isInitialized w \<and> stringify_configs env cs = getCurrentConfigKey w)"
  shows "initializeServers env cs w =
     (map snd (servers (init_loop env cs (if isInitialized w then closeAllServers env w else w))),
      (init_loop env cs (if isInitialized w then closeAllServers env w else w))
        \<lparr>isInitialized := True, mcpConfigKey := Some (stringify_configs env cs)\<rparr>)"
  unfolding initializeServers_def Let_def if_not_P[OF assms] saveCurrentConfigKey_def
  by simp

lemma getCurrentConfigKey_saved:
  "getCurrentConfigKey (w\<lparr>isInitialized := b, mcpConfigKey := Some k\<rparr>) = k"
  by (simp add: getCurrentConfigKey_def)

lemma initializeServers_post:
  assumes "initializeServers env cs w = (hs, w')"
  shows "isInitialized w' \<and> getCurrentConfigKey w' = stringify_configs env cs
         \<and> hs = map snd (servers w')"
proof (cases "isInitialized w \<and> stringify_configs env cs = getCurrentConfigKey w")
  case True
  then have "initializeServers env cs w =
     (map snd (servers w), w\<lparr>console := console w @ [LogAlreadyInitialized]\<rparr>)"
    by (simp add: initializeServers_reuse)
  with assms have e: "hs = map snd (servers w)"
    "w' = w\<lparr>console := console w @ [LogAlreadyInitialized]\<rparr>" by simp_all
  have "getCurrentConfigKey w' = getCurrentConfigKey w"
    unfolding e(2) by (simp add: getCurrentConfigKey_def)
  then show ?thesis using e True by simp
next
  case False
  note f = initializeServers_fresh[OF False]
  from f assms have e:
    "hs = map snd (servers (init_loop env cs (if isInitialized w then closeAllServers env w else w)))"
    "w' = (init_loop env cs (if isInitialized w then closeAllServers env w else w))
           \<lparr>isInitialized := True, mcpConfigKey := Some (stringify_configs env cs)\<rparr>"
    by simp_all
  have "getCurrentConfigKey w' = stringify_configs env cs"
    unfolding e(2) by (rule getCurrentConfigKey_saved)
  moreover have "isInitialized w'" unfolding e(2) by simp
  moreover have "hs = map snd (servers w')" unfolding e by simp
  ultimately show ?thesis by simp
qed

text \<open>
  In every state the manager reaches from the initial one, it is initialized or holds no
  server.
\<close>

lemma registry_state_initial: "isInitialized initial_world \<or> servers initial_world = []"
  by (simp add: initial_world_def)

lemma registry_state_closeAllServers:
  "isInitialized (closeAllServers env w) \<or> servers (closeAllServers env w) = []"
  by (simp add: closeAllServers_servers)

lemma registry_state_initializeServers:
  "isInitialized (snd (initializeServers env configs w))
   \<or> servers (snd (initializeServers env configs w)) = []"
  using initializeServers_post[of env configs w "fst (initializeServers env configs w)"
      "snd (initializeServers env configs w)"]
  by simp

subsection \<open>Reuse under an unchanged configuration\<close>

text \<open>
  C1. Two successive calls of \<open>initializeServers\<close>, from any state, with configuration lists
  that serialize identically: the second call makes no SDK call at all (no connect, no
  close), returns the handles the first call returned and leaves the registry as it was.
\<close>

theorem reconcile_idempotent:
  assumes "stringify_configs env configs2 = stringify_configs env configs1"
    and "initializeServers env configs1 w0 = (handles1, w1)"
    and "initializeServers env configs2 w1 = (handles2, w2)"
  shows "calls w2 = calls w1 \<and> handles2 = handles1 \<and> servers w2 = servers w1
         \<and> isInitialized w2 \<and> mcpConfigKey w2 = mcpConfigKey w1"
proof -
  from initializeServers_post[OF assms(2)]
  have p: "isInitialized w1" "getCurrentConfigKey w1 = stringify_configs env configs1"
    "handles1 = map snd (servers w1)" by simp_all
  have "stringify_configs env configs2 = getCurrentConfigKey w1" using assms(1) p(2) by simp
  from initializeServers_reuse[OF p(1) this] assms(3)
  have "handles2 = map snd (servers w1)" "w2 = w1\<lparr>console := console w1 @ [LogAlreadyInitialized]\<rparr>"
    by simp_all
  then show ?thesis using p by simp
qed



text \<open>The example list, applied twice to the initial state: two connects in total.\<close>

lemma example_first_call:
  "initializeServers example_env [config_files, config_remote] initial_world =
     ([MCPServerStdio ''files'' ''npx'' [] None],
      \<lparr>servers = [(''1'', MCPServerStdio ''files'' ''npx'' [] None)],
       isInitialized = True,
       mcpConfigKey = Some ''1:files:stdio;2:remote:http;'',
       calls = [Connect (MCPServerStdio ''files'' ''npx'' [] None),
                Connect (MCPServerStreamableHttp ''remote'' ''http://x'')],
       console = [LogConnected ''files'',
                  LogConnectFailed ''remote'' (ErrorObj ''connection refused'')]\<rparr>)"
  by (simp add: initializeServers_def initial_world_def example_env_def config_files_def
      config_remote_def registry_server_def saveCurrentConfigKey_def getCurrentConfigKey_def Let_def)

theorem reconcile_idempotent_witness:
  "fst (initializeServers example_env [config_files, config_remote]
          (snd (initializeServers example_env [config_files, config_remote] initial_world)))
     = [MCPServerStdio ''files'' ''npx'' [] None]
   \<and> calls (snd (initializeServers example_env [config_files, config_remote]
          (snd (initializeServers example_env [config_files, config_remote] initial_world))))
     = [Connect (MCPServerStdio ''files'' ''npx'' [] None),
        Connect (MCPServerStreamableHttp ''remote'' ''http://x'')]"
  using reconcile_idempotent[of example_env "[config_files, config_remote]"
      "[config_files, config_remote]" initial_world
      "fst (initializeServers example_env [config_files, config_remote] initial_world)"
      "snd (initializeServers example_env [config_files, config_remote] initial_world)"
      "fst (initializeServers example_env [config_files, config_remote]
          (snd (initializeServers example_env [config_files, config_remote] initial_world)))"
      "snd (initializeServers example_env [config_files, config_remote]
          (snd (initializeServers example_env [config_files, config_remote] initial_world)))"]
  by (simp add: example_first_call)

lemma map_set_subset: "set (map_set k v xs) \<subseteq> insert (k, v) (set xs)"
  by (induction xs) (auto split: if_splits)

lemma init_loop_servers_subset:
  "set (servers (init_loop env cs w)) \<subseteq>
     set (servers w)
     \<union> (\<lambda>c. (cfg_id c, registry_server c))
         ` {c \<in> set cs. connect_outcome env (registry_server c) = None}"
proof (induction cs arbitrary: w)
  case Nil
  show ?case by simp
next
  case (Cons c cs)
  show ?case
  proof (cases "connect_outcome env (registry_server c)")
    case None
    let ?w2 = "w\<lparr>calls := calls w @ [Connect (registry_server c)],
                  servers := map_set (cfg_id c) (registry_server c) (servers w),
                  console := console w @ [LogConnected (cfg_name c)]\<rparr>"
    have step: "init_loop env (c # cs) w = init_loop env cs ?w2"
      unfolding init_loop_step using None by simp
    have "set (servers ?w2) \<subseteq> insert (cfg_id c, registry_server c) (set (servers w))"
      using map_set_subset[of "cfg_id c" "registry_server c" "servers w"] by simp
    with Cons.IH[of ?w2] None show ?thesis
      unfolding step by auto
  next
    case (Some e)
    let ?w2 = "w\<lparr>calls := calls w @ [Connect (registry_server c)],
                  console := console w @ [LogConnectFailed (cfg_name c) e]\<rparr>"
    have step: "init_loop env (c # cs) w = init_loop env cs ?w2"
      unfolding init_loop_step using Some by simp
    have "servers ?w2 = servers w" by simp
    with Cons.IH[of ?w2] show ?thesis
      unfolding step by auto
  qed
qed

lemma initializeServers_connected_only:
  assumes "isInitialized w \<or> servers w = []"
    and "\<not> (isInitialized w \<and> stringify_configs env configs = getCurrentConfigKey w)"
  shows "\<forall>h \<in> set (fst (initializeServers env configs w)).
           \<exists>c \<in> set configs. h = registry_server c \<and> connect_outcome env h = None"
proof -
  let ?w1 = "if isInitialized w then closeAllServers env w else w"
  have empty: "servers ?w1 = []"
    using assms(1) by (auto simp: closeAllServers_servers)
  have sub: "set (servers (init_loop env configs ?w1)) \<subseteq>
     (\<lambda>c. (cfg_id c, registry_server c))
         ` {c \<in> set configs. connect_outcome env (registry_server c) = None}"
    using init_loop_servers_subset[of env configs ?w1] unfolding empty by simp
  have res: "fst (initializeServers env configs w) = map snd (servers (init_loop env configs ?w1))"
    unfolding initializeServers_fresh[OF assms(2)] by simp
  show ?thesis
  proof
    fix h
    assume "h \<in> set (fst (initializeServers env configs w))"
    then obtain k where "(k, h) \<in> set (servers (init_loop env configs ?w1))"
      unfolding res by auto
    with sub obtain c where "c \<in> set configs" "connect_outcome env (registry_server c) = None"
      "h = registry_server c"
      by auto
    then show "\<exists>c \<in> set configs. h = registry_server c \<and> connect_outcome env h = None"
      by auto
  qed
qed

lemma initializeServers_connected_all:
  assumes "isInitialized w \<or> servers w = []"
    and "\<not> (isInitialized w \<and> stringify_configs env configs = getCurrentConfigKey w)"
    and "distinct (map cfg_id configs)"
  shows "fst (initializeServers env configs w) =
           map registry_server
             (filter (\<lambda>c. connect_outcome env (registry_server c) = None) configs)"
proof -
  let ?w1 = "if isInitialized w then closeAllServers env w else w"
  have empty: "servers ?w1 = []"
    using assms(1) by (auto simp: closeAllServers_servers)
  then have disj: "fst ` set (servers ?w1) \<inter> cfg_id ` set configs = {}" by simp
  have sv: "servers (init_loop env configs ?w1)
      = map (\<lambda>c. (cfg_id c, registry_server c))
          (filter (\<lambda>c. connect_outcome env (registry_server c) = None) configs)"
    using init_loop_servers[OF assms(3) disj, of env] empty by simp
  have "fst (initializeServers env configs w) = map snd (servers (init_loop env configs ?w1))"
    unfolding initializeServers_fresh[OF assms(2)] by simp
  then show ?thesis unfolding sv by (simp add: comp_def)
qed

text \<open>
  In every reachable state the manager is initialized or holds no server, and every server
  it holds is one whose connect succeeds.
\<close>

lemma reachable_connected:
  "reachable env w \<Longrightarrow>
   (isInitialized w \<or> servers w = [])
   \<and> (\<forall>h \<in> set (getServers w). connect_outcome env h = None)"
proof (induction rule: reachable.induct)
  case reachable_initial
  show ?case by (simp add: initial_world_def getServers_def)
next
  case (reachable_initializeServers w configs)
  have st: "isInitialized (snd (initializeServers env configs w))
            \<or> servers (snd (initializeServers env configs w)) = []"
    by (rule registry_state_initializeServers)
  have hs: "getServers (snd (initializeServers env configs w)) = fst (initializeServers env configs w)"
    using initializeServers_post[of env configs w "fst (initializeServers env configs w)"
        "snd (initializeServers env configs w)"]
    by (simp add: getServers_def)
  have "\<forall>h \<in> set (fst (initializeServers env configs w)). connect_outcome env h = None"
  proof (cases "isInitialized w \<and> stringify_configs env configs = getCurrentConfigKey w")
    case True
    then have "fst (initializeServers env configs w) = getServers w"
      by (simp add: initializeServers_reuse getServers_def)
    then show ?thesis using reachable_initializeServers.IH by simp
  next
    case False
    from reachable_initializeServers.IH have "isInitialized w \<or> servers w = []" by simp
    from initializeServers_connected_only[OF this False] show ?thesis by blast
  qed
  then show ?case using st hs by simp
next
  case (reachable_closeAllServers w)
  show ?case by (simp add: closeAllServers_servers getServers_def)
qed

text \<open>
  C10, as the code has it. After any call of \<open>initializeServers\<close>,
  whatever the connects did, the registry is marked initialized and the stored key is the
  serialization of the whole requested list; the handles returned are the ones in the
  registry. A further call with a list that serializes identically returns those same
  handles and makes no SDK call: a server whose connect failed is not tried again.
  From a reachable state, no handle the second call returns is one whose connect fails.
  When the first call connected (the registry was in a state the manager can be in and
  the call did not itself reuse the existing handles), every handle the second call
  returns belongs to an entry whose connect succeeded, and for pairwise distinct ids the
  second call returns exactly the servers of the entries whose connect succeeded, in list
  order.
\<close>

theorem failed_connects_not_retried:
  assumes "initializeServers env configs w0 = (handles1, w1)"
    and "stringify_configs env configs' = stringify_configs env configs"
  shows "isInitialized w1 \<and> getCurrentConfigKey w1 = stringify_configs env configs
         \<and> handles1 = getServers w1
         \<and> fst (initializeServers env configs' w1) = handles1
         \<and> calls (snd (initializeServers env configs' w1)) = calls w1
         \<and> (reachable env w0 \<longrightarrow>
               (\<forall>h \<in> set (fst (initializeServers env configs' w1)). connect_outcome env h = None))
         \<and> ((isInitialized w0 \<or> servers w0 = [])
              \<and> \<not> (isInitialized w0 \<and> stringify_configs env configs = getCurrentConfigKey w0) \<longrightarrow>
               (\<forall>h \<in> set (fst (initializeServers env configs' w1)).
                   \<exists>c \<in> set configs. h = registry_server c \<and> connect_outcome env h = None)
               \<and> (distinct (map cfg_id configs) \<longrightarrow>
                    fst (initializeServers env configs' w1) =
                      map registry_server
                        (filter (\<lambda>c. connect_outcome env (registry_server c) = None) configs)))"
proof -
  from initializeServers_post[OF assms(1)]
  have p: "isInitialized w1" "getCurrentConfigKey w1 = stringify_configs env configs"
    "handles1 = map snd (servers w1)" by simp_all
  have "stringify_configs env configs' = getCurrentConfigKey w1" using assms(2) p(2) by simp
  from initializeServers_reuse[OF p(1) this]
  have second: "fst (initializeServers env configs' w1) = map snd (servers w1)"
    "calls (snd (initializeServers env configs' w1)) = calls w1"
    by simp_all
  have same: "fst (initializeServers env configs' w1) = fst (initializeServers env configs w0)"
    using second(1) p(3) assms(1) by simp
  have only: "\<forall>h \<in> set (fst (initializeServers env configs' w1)).
                   \<exists>c \<in> set configs. h = registry_server c \<and> connect_outcome env h = None"
    if "isInitialized w0 \<or> servers w0 = []"
      "\<not> (isInitialized w0 \<and> stringify_configs env configs = getCurrentConfigKey w0)"
    unfolding same by (rule initializeServers_connected_only[OF that])
  have all: "fst (initializeServers env configs' w1) =
                      map registry_server
                        (filter (\<lambda>c. connect_outcome env (registry_server c) = None) configs)"
    if "isInitialized w0 \<or> servers w0 = []"
      "\<not> (isInitialized w0 \<and> stringify_configs env configs = getCurrentConfigKey w0)"
      "distinct (map cfg_id configs)"
    unfolding same by (rule initializeServers_connected_all[OF that])
  have reach: "\<forall>h \<in> set (fst (initializeServers env configs' w1)). connect_outcome env h = None"
    if "reachable env w0"
  proof -
    have "reachable env (snd (initializeServers env configs w0))"
      using that by (rule reachable_initializeServers)
    then have "reachable env w1" using assms(1) by simp
    from reachable_connected[OF this] show ?thesis
      unfolding second(1) by (simp add: getServers_def)
  qed
  show ?thesis
    using p second only all reach by (simp add: getServers_def)
qed

text \<open>
  One server connects and one refuses the connection: the second call returns the first
  one only and does not connect again.
\<close>

theorem failed_connects_not_retried_witness:
  "connect_outcome example_env (registry_server config_files) = None
   \<and> connect_outcome example_env (registry_server config_remote) = Some (ErrorObj ''connection refused'')
   \<and> distinct (map cfg_id [config_files, config_remote])
   \<and> reachable example_env initial_world
   \<and> isInitialized (snd (initializeServers example_env [config_files, config_remote] initial_world))
   \<and> getCurrentConfigKey (snd (initializeServers example_env [config_files, config_remote] initial_world))
       = stringify_configs example_env [config_files, config_remote]
   \<and> fst (initializeServers example_env [config_files, config_remote]
            (snd (initializeServers example_env [config_files, config_remote] initial_world)))
       = [registry_server config_files]
   \<and> calls (snd (initializeServers example_env [config_files, config_remote]
            (snd (initializeServers example_env [config_files, config_remote] initial_world))))
       = [Connect (registry_server config_files), Connect (registry_server config_remote)]"
proof -
  have out: "connect_outcome example_env (registry_server config_files) = None"
    "connect_outcome example_env (registry_server config_remote) = Some (ErrorObj ''connection refused'')"
    by (simp_all add: example_env_def config_files_def config_remote_def registry_server_def)
  have d: "distinct (map cfg_id [config_files, config_remote])"
    by (simp add: config_files_def config_remote_def)
  have st: "isInitialized initial_world \<or> servers initial_world = []"
    "\<not> (isInitialized initial_world
        \<and> stringify_configs example_env [config_files, config_remote] = getCurrentConfigKey initial_world)"
    by (simp_all add: initial_world_def)
  have cs: "calls (snd (initializeServers example_env [config_files, config_remote] initial_world))
      = [Connect (registry_server config_files), Connect (registry_server config_remote)]"
    by (simp add: example_first_call) (simp add: config_files_def config_remote_def registry_server_def)
  have f: "filter (\<lambda>c. connect_outcome example_env (registry_server c) = None)
             [config_files, config_remote] = [config_files]"
    by (simp add: out)
  have first: "initializeServers example_env [config_files, config_remote] initial_world
      = (fst (initializeServers example_env [config_files, config_remote] initial_world),
         snd (initializeServers example_env [config_files, config_remote] initial_world))"
    by simp
  note t = failed_connects_not_retried[OF first refl]
  have r: "reachable example_env initial_world" by (rule reachable_initial)
  from t have a: "isInitialized (snd (initializeServers example_env [config_files, config_remote] initial_world))"
    "getCurrentConfigKey (snd (initializeServers example_env [config_files, config_remote] initial_world))
       = stringify_configs example_env [config_files, config_remote]"
    "calls (snd (initializeServers example_env [config_files, config_remote]
            (snd (initializeServers example_env [config_files, config_remote] initial_world))))
       = calls (snd (initializeServers example_env [config_files, config_remote] initial_world))"
    by blast+
  from t st d have "fst (initializeServers example_env [config_files, config_remote]
            (snd (initializeServers example_env [config_files, config_remote] initial_world)))
       = map registry_server
           (filter (\<lambda>c. connect_outcome example_env (registry_server c) = None)
              [config_files, config_remote])"
    by blast
  then have b: "fst (initializeServers example_env [config_files, config_remote]
            (snd (initializeServers example_env [config_files, config_remote] initial_world)))
       = [registry_server config_files]"
    unfolding f by simp
  show ?thesis
    using out d r a b cs by simp
qed

text \<open>
  C10 as stated fails on a list with a repeated id: two entries with the same id connect
  and a third refuses; the second call returns the handle of the later entry only, so a
  handle whose connect succeeded is not returned.
\<close>

lemma example_repeated_id_and_failure:
  "initializeServers example_env [config_files, config_git, config_remote] initial_world =
     ([MCPServerStdio ''git'' ''node'' [''git.js''] None],
      \<lparr>servers = [(''1'', MCPServerStdio ''git'' ''node'' [''git.js''] None)],
       isInitialized = True,
       mcpConfigKey = Some ''1:files:stdio;1:git:stdio;2:remote:http;'',
       calls = [Connect (MCPServerStdio ''files'' ''npx'' [] None),
                Connect (MCPServerStdio ''git'' ''node'' [''git.js''] None),
                Connect (MCPServerStreamableHttp ''remote'' ''http://x'')],
       console = [LogConnected ''files'', LogConnected ''git'',
                  LogConnectFailed ''remote'' (ErrorObj ''connection refused'')]\<rparr>)"
  by (simp add: initializeServers_def initial_world_def example_env_def config_files_def
      config_git_def config_remote_def registry_server_def saveCurrentConfigKey_def
      getCurrentConfigKey_def Let_def)

theorem successful_handle_not_returned_counterexample:
  "connect_outcome example_env (registry_server config_files) = None
   \<and> connect_outcome example_env (registry_server config_remote) \<noteq> None
   \<and> registry_server config_files
       \<notin> set (fst (initializeServers example_env [config_files, config_git, config_remote]
                 (snd (initializeServers example_env [config_files, config_git, config_remote]
                         initial_world))))"
proof -
  have out: "connect_outcome example_env (registry_server config_files) = None"
    "connect_outcome example_env (registry_server config_remote) \<noteq> None"
    "registry_server config_files = MCPServerStdio ''files'' ''npx'' [] None"
    by (simp_all add: example_env_def config_files_def config_remote_def registry_server_def)
  have "fst (initializeServers example_env [config_files, config_git, config_remote]
                 (snd (initializeServers example_env [config_files, config_git, config_remote]
                         initial_world)))
        = [MCPServerStdio ''git'' ''node'' [''git.js''] None]"
    unfolding example_repeated_id_and_failure
    by (simp add: initializeServers_def getCurrentConfigKey_def example_env_def config_files_def
        config_git_def config_remote_def Let_def)
  then show ?thesis using out by simp
qed


subsection \<open>Teardown\<close>

text \<open>
  C6, as the code has it. After \<open>closeAllServers\<close>: close has been called once on every
  registered handle, in map order; the map is empty, so \<open>getServers\<close> returns the empty
  list; the initialized flag is reset. The stored key \<^verbatim>\<open>__mcpConfigKey\<close> is not reset:
  it keeps its value. It is no longer consulted, because the flag is reset: the next
  \<open>initializeServers\<close> connects every server of its list, whatever the list serializes to.
\<close>

theorem closeAllServers_effect:
  "calls (closeAllServers env w) = calls w @ map (\<lambda>p. Close (snd p)) (servers w)
   \<and> servers (closeAllServers env w) = []
   \<and> getServers (closeAllServers env w) = []
   \<and> isInitialized (closeAllServers env w) = False
   \<and> mcpConfigKey (closeAllServers env w) = mcpConfigKey w
   \<and> fst (initializeServers env configs (closeAllServers env w))
       = getServers (init_loop env configs (closeAllServers env w))
   \<and> calls (snd (initializeServers env configs (closeAllServers env w)))
       = calls (closeAllServers env w) @ map (\<lambda>c. Connect (registry_server c)) configs"
proof -
  have n: "\<not> (isInitialized (closeAllServers env w)
      \<and> stringify_configs env configs = getCurrentConfigKey (closeAllServers env w))"
    by (simp add: closeAllServers_isInitialized)
  have "fst (initializeServers env configs (closeAllServers env w))
       = getServers (init_loop env configs (closeAllServers env w))"
    unfolding initializeServers_fresh[OF n]
    by (simp add: closeAllServers_isInitialized getServers_def)
  moreover have "calls (snd (initializeServers env configs (closeAllServers env w)))
       = calls (closeAllServers env w) @ map (\<lambda>c. Connect (registry_server c)) configs"
    unfolding initializeServers_fresh[OF n]
    by (simp add: closeAllServers_isInitialized init_loop_calls)
  ultimately show ?thesis
    by (simp add: closeAllServers_servers closeAllServers_isInitialized
        closeAllServers_mcpConfigKey closeAllServers_calls getServers_def)
qed

text \<open>
  C6 as stated fails: after the example list has been applied and everything closed, the
  stored key is still the serialization of that list, not the initial empty key.
\<close>

lemma initial_key: "getCurrentConfigKey initial_world = []"
  by (simp add: getCurrentConfigKey_def initial_world_def)

theorem closeAllServers_keeps_key_counterexample:
  "\<not> (getServers (closeAllServers example_env
           (snd (initializeServers example_env [config_files, config_remote] initial_world))) = []
      \<and> isInitialized (closeAllServers example_env
           (snd (initializeServers example_env [config_files, config_remote] initial_world))) = False
      \<and> getCurrentConfigKey (closeAllServers example_env
           (snd (initializeServers example_env [config_files, config_remote] initial_world)))
         = getCurrentConfigKey initial_world)"
  unfolding initial_key example_first_call
  by (simp add: closeAllServers_mcpConfigKey getCurrentConfigKey_def)

subsection \<open>Partial failure\<close>





section \<open>Properties of the discovery route\<close>

subsection \<open>The parts of the handler\<close>

lemma discover_try_handle:
  "fst (snd (discover_try env request w)) =
     (case request of Inr (Some server) \<Rightarrow> discover_server server | _ \<Rightarrow> None)"
  by (simp add: discover_try_def Let_def split: sum.split option.split)

lemma discover_try_no_handle:
  "(case request of Inr (Some server) \<Rightarrow> discover_server server | _ \<Rightarrow> None) = None \<Longrightarrow>
   calls (snd (snd (discover_try env request w))) = calls w"
  by (auto simp: discover_try_def Let_def split: sum.splits option.splits)

lemma discover_try_calls:
  "discover_server server = Some h \<Longrightarrow>
   calls (snd (snd (discover_try env (Inr (Some server)) w))) =
     calls w @ [Connect h] @ (if connect_outcome env h = None then [ListTools h] else [])"
  by (simp add: discover_try_def Let_def split: sum.split option.split)

lemma discover_catch_calls: "calls (snd (discover_catch e w)) = calls w"
  by (simp add: discover_catch_def Let_def split: sum.split)

lemma discover_finally_calls:
  "calls (discover_finally env m w) = calls w @ (case m of None \<Rightarrow> [] | Some h \<Rightarrow> [Close h])"
  by (simp add: discover_finally_def Let_def split: option.split)

lemma discover_POST_calls:
  "calls (snd (discover_POST env request w)) =
     calls (snd (snd (discover_try env request w)))
       @ (case fst (snd (discover_try env request w)) of None \<Rightarrow> [] | Some h \<Rightarrow> [Close h])"
proof -
  obtain outcome m w1 where t: "discover_try env request w = (outcome, m, w1)"
    by (cases "discover_try env request w") auto
  show ?thesis
  proof (cases outcome)
    case (Inl e)
    obtain res w2 where c: "discover_catch e w1 = (res, w2)" by (cases "discover_catch e w1")
    have "calls w2 = calls w1" using discover_catch_calls[of e w1] c by simp
    then show ?thesis
      by (simp add: discover_POST_def t Inl c discover_finally_calls)
  next
    case (Inr r)
    then show ?thesis
      by (simp add: discover_POST_def t discover_finally_calls)
  qed
qed

lemma discover_try_close_independent:
  "fst (discover_try (env\<lparr>close_outcome := f\<rparr>) request w) = fst (discover_try env request w)
   \<and> console (snd (snd (discover_try (env\<lparr>close_outcome := f\<rparr>) request w)))
       = console (snd (snd (discover_try env request w)))"
  by (simp add: discover_try_def Let_def split: sum.split option.split)

lemma discover_POST_result:
  "fst (discover_POST env request w) =
     (case fst (discover_try env request w) of
        Inr response \<Rightarrow> Inr response
      | Inl error \<Rightarrow> fst (discover_catch error (snd (snd (discover_try env request w)))))"
proof -
  obtain outcome m w1 where t: "discover_try env request w = (outcome, m, w1)"
    by (cases "discover_try env request w") auto
  show ?thesis
    by (cases outcome) (simp_all add: discover_POST_def t split: prod.split)
qed

subsection \<open>Closing the connection\<close>

text \<open>
  C5. The handle of a discover call is the server object built from the request, if one is
  built; it does not depend on how connect or \<^verbatim>\<open>listTools\<close> end. The SDK calls of the
  handler are then: connect, \<^verbatim>\<open>listTools\<close> if the connect succeeded, and close; without a
  handle there is no call at all. So close is called exactly once on the handle on every
  path and never otherwise. What the handler returns or throws does not depend on how
  close ends.
\<close>

theorem discover_closes_once:
  "calls (snd (discover_POST env request w)) =
     calls w @ (case fst (snd (discover_try env request w)) of
                  None \<Rightarrow> []
                | Some h \<Rightarrow> [Connect h] @ (if connect_outcome env h = None then [ListTools h] else [])
                            @ [Close h])
   \<and> filter is_close (drop (length (calls w)) (calls (snd (discover_POST env request w)))) =
       (case fst (snd (discover_try env request w)) of None \<Rightarrow> [] | Some h \<Rightarrow> [Close h])
   \<and> fst (snd (discover_try env request w)) =
       (case request of Inr (Some server) \<Rightarrow> discover_server server | _ \<Rightarrow> None)
   \<and> fst (discover_POST (env\<lparr>close_outcome := f\<rparr>) request w) = fst (discover_POST env request w)"
proof -
  let ?m = "fst (snd (discover_try env request w))"
  have m: "?m = (case request of Inr (Some server) \<Rightarrow> discover_server server | _ \<Rightarrow> None)"
    by (rule discover_try_handle)
  have c: "calls (snd (discover_POST env request w)) =
     calls w @ (case ?m of
                  None \<Rightarrow> []
                | Some h \<Rightarrow> [Connect h] @ (if connect_outcome env h = None then [ListTools h] else [])
                            @ [Close h])"
  proof (cases ?m)
    case None
    then have "calls (snd (snd (discover_try env request w))) = calls w"
      using discover_try_no_handle[of request env w] m by simp
    then show ?thesis using None by (simp add: discover_POST_calls)
  next
    case (Some h)
    then obtain server where r: "request = Inr (Some server)" and h: "discover_server server = Some h"
      using m by (auto split: sum.splits option.splits)
    show ?thesis
      using Some discover_try_calls[OF h, of env w] by (simp add: discover_POST_calls r)
  qed
  have "filter is_close (drop (length (calls w)) (calls (snd (discover_POST env request w)))) =
       (case ?m of None \<Rightarrow> [] | Some h \<Rightarrow> [Close h])"
    unfolding c by (simp split: option.split)
  moreover have "fst (discover_POST (env\<lparr>close_outcome := f\<rparr>) request w)
                   = fst (discover_POST env request w)"
  proof -
    have "snd (snd (discover_try (env\<lparr>close_outcome := f\<rparr>) request w))
            = snd (snd (discover_try env request w))"
      by (simp add: discover_try_def Let_def split: sum.split option.split)
    then show ?thesis
      by (simp add: discover_POST_result discover_try_close_independent split: sum.split)
  qed
  ultimately show ?thesis using c m by simp
qed


text \<open>
  A server that refuses the connection and whose close fails as well: the answer is the
  connection failure, and the handle has been closed once.
\<close>

lemma example_discover_refused:
  "discover_POST example_env (Inr (Some config_remote)) initial_world =
     (Inr (HttpResponse 500 (FailedBody ''Failed to discover tools: connection refused'' [])),
      \<lparr>servers = [], isInitialized = False, mcpConfigKey = None,
       calls = [Connect (MCPServerStreamableHttp ''remote'' ''http://x''),
                Close (MCPServerStreamableHttp ''remote'' ''http://x'')],
       console = [LogDiscoveryError (ErrorObj ''connection refused''),
                  LogDiscoveryCloseError (ErrorObj ''close failed'')]\<rparr>)"
  by (simp add: discover_POST_def discover_try_def discover_server_def discover_catch_def
      discover_finally_def example_env_def config_remote_def initial_world_def js_or_def Let_def)

subsection \<open>What is rejected before connecting\<close>

lemma discover_POST_rejected:
  "discover_try env request w = (Inr response, None, w) \<Longrightarrow>
   discover_POST env request w = (Inr response, w)"
  by (simp add: discover_POST_def discover_finally_def)

text \<open>
  C4, as the code has it. A request without \<^verbatim>\<open>server\<close>, or with a type that is neither
  \<^verbatim>\<open>'stdio'\<close> nor \<^verbatim>\<open>'http'\<close>, is answered with status 400 and leaves the world as it was: no
  server object, no SDK call. The parameters of the transport are not validated: a
  \<^verbatim>\<open>'stdio'\<close> configuration without command is connected with the command \<^verbatim>\<open>'npx'\<close>, an
  \<^verbatim>\<open>'http'\<close> configuration without url with the empty url.
\<close>

theorem discover_validation:
  "discover_POST env (Inr None) w
     = (Inr (HttpResponse 400 (ErrorBody ''Server configuration is required'')), w)
   \<and> (cfg_type server \<noteq> ''stdio'' \<and> cfg_type server \<noteq> ''http'' \<longrightarrow>
        discover_POST env (Inr (Some server)) w
          = (Inr (HttpResponse 400 (ErrorBody ''Invalid server type'')), w))
   \<and> (cfg_type server = ''stdio'' \<and> cfg_command server = None \<longrightarrow>
        calls (snd (discover_POST env (Inr (Some server)) w))
          = calls w
            @ [Connect (MCPServerStdio (cfg_name server) ''npx'' (args_or (cfg_args server) [])
                          (cfg_env server))]
            @ (if connect_outcome env (MCPServerStdio (cfg_name server) ''npx''
                     (args_or (cfg_args server) []) (cfg_env server)) = None
               then [ListTools (MCPServerStdio (cfg_name server) ''npx''
                       (args_or (cfg_args server) []) (cfg_env server))]
               else [])
            @ [Close (MCPServerStdio (cfg_name server) ''npx'' (args_or (cfg_args server) [])
                        (cfg_env server))])
   \<and> (cfg_type server = ''http'' \<and> cfg_url server = None \<longrightarrow>
        calls (snd (discover_POST env (Inr (Some server)) w))
          = calls w
            @ [Connect (MCPServerStreamableHttp (cfg_name server) [])]
            @ (if connect_outcome env (MCPServerStreamableHttp (cfg_name server) []) = None
               then [ListTools (MCPServerStreamableHttp (cfg_name server) [])]
               else [])
            @ [Close (MCPServerStreamableHttp (cfg_name server) [])])"
proof -
  have a: "discover_POST env (Inr None) w
     = (Inr (HttpResponse 400 (ErrorBody ''Server configuration is required'')), w)"
    by (rule discover_POST_rejected) (simp add: discover_try_def)
  have b: "discover_POST env (Inr (Some server)) w
          = (Inr (HttpResponse 400 (ErrorBody ''Invalid server type'')), w)"
    if "cfg_type server \<noteq> ''stdio''" "cfg_type server \<noteq> ''http''"
    by (rule discover_POST_rejected) (simp add: discover_try_def discover_server_def that)
  have c: "calls (snd (discover_POST env (Inr (Some server)) w))
          = calls w @ [Connect h] @ (if connect_outcome env h = None then [ListTools h] else [])
            @ [Close h]"
    if "discover_server server = Some h" for h
    using discover_try_calls[OF that, of env w] discover_try_handle[of env "Inr (Some server)" w]
    by (simp add: discover_POST_calls that)
  have d: "discover_server server = Some (MCPServerStdio (cfg_name server) ''npx''
             (args_or (cfg_args server) []) (cfg_env server))"
    if "cfg_type server = ''stdio''" "cfg_command server = None"
    by (simp add: discover_server_def that)
  have e: "discover_server server = Some (MCPServerStreamableHttp (cfg_name server) [])"
    if "cfg_type server = ''http''" "cfg_url server = None"
    by (simp add: discover_server_def that)
  show ?thesis
    using a b c[OF d] c[OF e] by blast
qed

text \<open>
  C4 as stated fails: for a \<^verbatim>\<open>'stdio'\<close> configuration without command the route connects
  (with \<^verbatim>\<open>'npx'\<close>) and, in the example environment, answers with the tool list.
\<close>

lemma example_discover_files:
  "discover_POST example_env (Inr (Some config_files)) initial_world =
     (Inr (HttpResponse 200
        (ToolsBody [ToolInfo (JStr ''read_file'') (JStr ''No description available''),
                    ToolInfo (JStr ''Unknown Tool'') (JStr ''Lists a directory'')])),
      \<lparr>servers = [], isInitialized = False, mcpConfigKey = None,
       calls = [Connect (MCPServerStdio ''files'' ''npx'' [] None),
                ListTools (MCPServerStdio ''files'' ''npx'' [] None),
                Close (MCPServerStdio ''files'' ''npx'' [] None)],
       console = [LogDiscoveryCloseError (ErrorObj ''close failed'')]\<rparr>)"
  by (simp add: discover_POST_def discover_try_def discover_server_def discover_finally_def
      example_env_def config_files_def initial_world_def js_or_def Let_def)

theorem discover_missing_command_counterexample:
  "cfg_type config_files = ''stdio'' \<and> cfg_command config_files = None
   \<and> fst (discover_POST example_env (Inr (Some config_files)) initial_world)
       = Inr (HttpResponse 200
          (ToolsBody [ToolInfo (JStr ''read_file'') (JStr ''No description available''),
                      ToolInfo (JStr ''Unknown Tool'') (JStr ''Lists a directory'')]))
   \<and> calls (snd (discover_POST example_env (Inr (Some config_files)) initial_world))
       = [Connect (MCPServerStdio ''files'' ''npx'' [] None),
          ListTools (MCPServerStdio ''files'' ''npx'' [] None),
          Close (MCPServerStdio ''files'' ''npx'' [] None)]"
  by (simp add: example_discover_files) (simp add: config_files_def)

text \<open>An unknown type, a subprocess server without command, an HTTP server without url.\<close>

theorem discover_validation_witness:
  "discover_POST example_env (Inr (Some config_socket)) initial_world
     = (Inr (HttpResponse 400 (ErrorBody ''Invalid server type'')), initial_world)
   \<and> calls (snd (discover_POST example_env (Inr (Some config_files)) initial_world))
     = [Connect (MCPServerStdio ''files'' ''npx'' [] None),
        ListTools (MCPServerStdio ''files'' ''npx'' [] None),
        Close (MCPServerStdio ''files'' ''npx'' [] None)]
   \<and> calls (snd (discover_POST example_env (Inr (Some (config_remote\<lparr>cfg_url := None\<rparr>))) initial_world))
     = [Connect (MCPServerStreamableHttp ''remote'' []),
        Close (MCPServerStreamableHttp ''remote'' [])]"
  using discover_validation[of example_env initial_world config_socket]
    discover_validation[of example_env initial_world config_files]
    discover_validation[of example_env initial_world "config_remote\<lparr>cfg_url := None\<rparr>"]
  by (simp add: config_socket_def config_files_def config_remote_def example_env_def
      initial_world_def)

subsection \<open>Defaults in the tool list\<close>

lemma map_tools_objects:
  "list_all (\<lambda>t. \<not> nullish t) toolsList \<Longrightarrow>
   map_tools toolsList =
     Inr (map (\<lambda>tool. ToolInfo (js_or (get tool ''name'') (JStr ''Unknown Tool''))
                              (js_or (get tool ''description'') (JStr ''No description available'')))
              toolsList)"
  by (induction toolsList) simp_all

text \<open>
  C9. When the server connects and its catalogue is a list of objects (no entry is
  \<^verbatim>\<open>null\<close> or \<^verbatim>\<open>undefined\<close>), the route answers with status 200 and one entry per tool, in
  order: a missing name becomes \<^verbatim>\<open>'Unknown Tool'\<close>, a missing description
  \<^verbatim>\<open>'No description available'\<close>, and a non-empty name or description is kept.
\<close>

theorem discover_defaults_missing_fields:
  assumes "discover_server server = Some h"
    and "connect_outcome env h = None"
    and "listTools_outcome env h = Inr toolsList"
    and "list_all (\<lambda>t. \<not> nullish t) toolsList"
  shows "\<exists>tools. fst (discover_POST env (Inr (Some server)) w) = Inr (HttpResponse 200 (ToolsBody tools))
           \<and> length tools = length toolsList
           \<and> (\<forall>i < length toolsList.
                 (get (toolsList ! i) ''name'' = JUndefined \<longrightarrow>
                    info_name (tools ! i) = JStr ''Unknown Tool'')
               \<and> (get (toolsList ! i) ''description'' = JUndefined \<longrightarrow>
                    info_description (tools ! i) = JStr ''No description available'')
               \<and> (truthy (get (toolsList ! i) ''name'') \<longrightarrow>
                    info_name (tools ! i) = get (toolsList ! i) ''name'')
               \<and> (truthy (get (toolsList ! i) ''description'') \<longrightarrow>
                    info_description (tools ! i) = get (toolsList ! i) ''description''))"
proof -
  let ?tools = "map (\<lambda>tool. ToolInfo (js_or (get tool ''name'') (JStr ''Unknown Tool''))
                              (js_or (get tool ''description'') (JStr ''No description available'')))
              toolsList"
  have "fst (discover_try env (Inr (Some server)) w) = Inr (HttpResponse 200 (ToolsBody ?tools))"
    by (simp add: discover_try_def Let_def assms(1,2,3) map_tools_objects[OF assms(4)])
  then have "fst (discover_POST env (Inr (Some server)) w) = Inr (HttpResponse 200 (ToolsBody ?tools))"
    by (simp add: discover_POST_result)
  moreover have "length ?tools = length toolsList" by simp
  moreover have "\<forall>i < length toolsList.
                 (get (toolsList ! i) ''name'' = JUndefined \<longrightarrow>
                    info_name (?tools ! i) = JStr ''Unknown Tool'')
               \<and> (get (toolsList ! i) ''description'' = JUndefined \<longrightarrow>
                    info_description (?tools ! i) = JStr ''No description available'')
               \<and> (truthy (get (toolsList ! i) ''name'') \<longrightarrow>
                    info_name (?tools ! i) = get (toolsList ! i) ''name'')
               \<and> (truthy (get (toolsList ! i) ''description'') \<longrightarrow>
                    info_description (?tools ! i) = get (toolsList ! i) ''description'')"
    by (simp add: js_or_def)
  ultimately show ?thesis by blast
qed

text \<open>The example catalogue: one tool without description, one without name.\<close>

theorem discover_defaults_missing_fields_witness:
  "get (JObj [(''name'', JStr ''read_file'')]) ''description'' = JUndefined
   \<and> get (JObj [(''description'', JStr ''Lists a directory'')]) ''name'' = JUndefined
   \<and> fst (discover_POST example_env (Inr (Some config_files)) initial_world)
       = Inr (HttpResponse 200
          (ToolsBody [ToolInfo (JStr ''read_file'') (JStr ''No description available''),
                      ToolInfo (JStr ''Unknown Tool'') (JStr ''Lists a directory'')]))"
proof -
  have s: "discover_server config_files = Some (MCPServerStdio ''files'' ''npx'' [] None)"
    by (simp add: discover_server_def config_files_def)
  have c: "connect_outcome example_env (MCPServerStdio ''files'' ''npx'' [] None) = None"
    by (simp add: example_env_def)
  have l: "listTools_outcome example_env (MCPServerStdio ''files'' ''npx'' [] None)
             = Inr [JObj [(''name'', JStr ''read_file'')],
                    JObj [(''description'', JStr ''Lists a directory'')]]"
    by (simp add: example_env_def)
  have n: "list_all (\<lambda>t. \<not> nullish t) [JObj [(''name'', JStr ''read_file'')],
                    JObj [(''description'', JStr ''Lists a directory'')]]"
    by simp
  from discover_defaults_missing_fields[OF s c l n, of initial_world]
  obtain tools where t: "fst (discover_POST example_env (Inr (Some config_files)) initial_world)
        = Inr (HttpResponse 200 (ToolsBody tools))"
    and len: "length tools = 2"
    and el: "\<forall>i<2.
                 (get ([JObj [(''name'', JStr ''read_file'')],
                    JObj [(''description'', JStr ''Lists a directory'')]] ! i) ''name'' = JUndefined \<longrightarrow>
                    info_name (tools ! i) = JStr ''Unknown Tool'')
               \<and> (get ([JObj [(''name'', JStr ''read_file'')],
                    JObj [(''description'', JStr ''Lists a directory'')]] ! i) ''description'' = JUndefined \<longrightarrow>
                    info_description (tools ! i) = JStr ''No description available'')
               \<and> (truthy (get ([JObj [(''name'', JStr ''read_file'')],
                    JObj [(''description'', JStr ''Lists a directory'')]] ! i) ''name'') \<longrightarrow>
                    info_name (tools ! i) = get ([JObj [(''name'', JStr ''read_file'')],
                    JObj [(''description'', JStr ''Lists a directory'')]] ! i) ''name'')
               \<and> (truthy (get ([JObj [(''name'', JStr ''read_file'')],
                    JObj [(''description'', JStr ''Lists a directory'')]] ! i) ''description'') \<longrightarrow>
                    info_description (tools ! i) = get ([JObj [(''name'', JStr ''read_file'')],
                    JObj [(''description'', JStr ''Lists a directory'')]] ! i) ''description'')"
    by auto
  from el have e0: "info_name (tools ! 0) = JStr ''read_file''"
      "info_description (tools ! 0) = JStr ''No description available''"
    by simp_all
  from el have e1: "info_name (tools ! 1) = JStr ''Unknown Tool''"
      "info_description (tools ! 1) = JStr ''Lists a directory''"
    by simp_all
  obtain a b where ab: "tools = [a, b]"
    using len by (cases tools; cases "tl tools"; auto)
  have "a = ToolInfo (JStr ''read_file'') (JStr ''No description available'')"
    using e0 ab by (cases a) simp
  moreover have "b = ToolInfo (JStr ''Unknown Tool'') (JStr ''Lists a directory'')"
    using e1 ab by (cases b) simp
  ultimately show ?thesis using t ab by simp
qed

section \<open>Properties of the streaming translator\<close>

subsection \<open>Message chunks and their citations\<close>









subsection \<open>The terminal frame\<close>















subsection \<open>The frame of a finished tool call\<close>



text \<open>A number inside a query is a safe integer and prints in decimal.\<close>

lemma number_toString_example:
  "number_toString (Abs_safe_int (- 120)) = ''-120''"
  by (simp add: number_toString_def Abs_safe_int_inverse digit_char_def)


end
